theory Spec2Isabelle
  imports Complex_Main "HOL-Library.Sublist"
begin

section \<open>JavaScript values used by the sources\<close>

subsection \<open>Strings\<close>

text \<open>
  A JavaScript string is a sequence of UTF-16 code units, here natural numbers (below
  65536 in a real string). \<open>js\<close> embeds an ASCII literal, one code unit per character;
  \<open>length\<close>, \<open>take\<close>, \<open>drop\<close> and \<open>@\<close> are \<open>length\<close>, \<open>substring\<close> and
  \<open>+\<close> of the sources.
\<close>

type_synonym js_string = "nat list"

definition js :: "string \<Rightarrow> js_string" where
  "js s = map of_char s"

text \<open>\<open>a || d\<close> on an optional string: \<open>undefined\<close> and the empty string are falsy.\<close>

definition or_string :: "js_string option \<Rightarrow> js_string \<Rightarrow> js_string" where
  "or_string a d = (case a of None \<Rightarrow> d | Some s \<Rightarrow> if s = [] then d else s)"

text \<open>\<open>Array.prototype.join\<close> on an array of strings.\<close>

fun join :: "js_string \<Rightarrow> js_string list \<Rightarrow> js_string" where
  "join sep [] = []"
| "join sep [x] = x"
| "join sep (x # y # ys) = x @ sep @ join sep (y # ys)"

subsection \<open>Numbers\<close>

text \<open>
  A JavaScript number is an IEEE 754 double. The schemas reject NaN (\<open>z.number()\<close>),
  and neither \<open>x * 2\<close> nor \<open>24 - y\<close> makes a NaN from other numbers, so a number here is
  a finite double, given by its rational value, or an infinity. The two zeros are one
  value: the sources only test them for truthiness, where both are falsy.
\<close>

datatype number = Num rat | Infinity | Neg_Infinity

definition pow2 :: "int \<Rightarrow> rat" where
  "pow2 e = (if 0 \<le> e then 2 ^ nat e else 1 / 2 ^ nat (- e))"

text \<open>The number of binary digits of a positive integer.\<close>

function bit_length :: "int \<Rightarrow> int" where
  "bit_length n = (if n \<le> 0 then 0 else 1 + bit_length (n div 2))"
  by pat_completeness auto
termination
  by (relation "measure nat") auto

text \<open>The binary exponent of a positive rational \<open>a\<close>: the \<open>e\<close> with
  \<open>2^e \<le> a < 2^(e+1)\<close>.\<close>

definition exponent :: "rat \<Rightarrow> int" where
  "exponent a =
     (let (p, q) = quotient_of a;
          d = bit_length p - bit_length q
      in if pow2 d \<le> a then d else d - 1)"

definition round_half_even :: "rat \<Rightarrow> int" where
  "round_half_even q =
     (let f = \<lfloor>q\<rfloor>; r = q - of_int f
      in if r < 1 / 2 then f else if 1 / 2 < r then f + 1 else if even f then f else f + 1)"

text \<open>
  Rounding of an exact result to a double, to nearest with ties to even: 53 significant
  bits, the least exponent -1022 (below it the spacing stays \<open>2^-1074\<close>), and an
  infinity when the rounded magnitude reaches \<open>2^1024\<close>.
\<close>

definition round_double :: "rat \<Rightarrow> number" where
  "round_double x =
     (if x = 0 then Num 0
      else
        (let a = \<bar>x\<bar>;
             e = max (exponent a) (- 1022);
             ulp = pow2 (e - 52);
             m = of_int (round_half_even (a / ulp)) * ulp
         in if 1024 \<le> exponent m then (if 0 < x then Infinity else Neg_Infinity)
            else Num (if 0 < x then m else - m)))"

text \<open>The rationals that are doubles: rounding leaves them as they are.\<close>

definition is_double :: "rat \<Rightarrow> bool" where
  "is_double x = (round_double x = Num x)"

text \<open>\<open>x * 2\<close>.\<close>

fun times_2 :: "number \<Rightarrow> number" where
  "times_2 (Num x) = round_double (x * 2)"
| "times_2 Infinity = Infinity"
| "times_2 Neg_Infinity = Neg_Infinity"

text \<open>\<open>24 - y\<close>.\<close>

fun minus_from_24 :: "number \<Rightarrow> number" where
  "minus_from_24 (Num y) = round_double (24 - y)"
| "minus_from_24 Infinity = Neg_Infinity"
| "minus_from_24 Neg_Infinity = Infinity"

text \<open>\<open>a || d\<close> on an optional number: \<open>undefined\<close> and zero are falsy.\<close>

definition or_number :: "number option \<Rightarrow> number \<Rightarrow> number" where
  "or_number a d = (case a of None \<Rightarrow> d | Some n \<Rightarrow> if n = Num 0 then d else n)"

text \<open>
  \<open>a % b\<close> on integral numbers with \<open>b > 0\<close>: the remainder takes the sign of the
  dividend (a zero result of a negative dividend is \<open>-0\<close>, which indexes like \<open>0\<close>).
\<close>

definition js_rem :: "int \<Rightarrow> int \<Rightarrow> int" where
  "js_rem a b = sgn a * (\<bar>a\<bar> mod \<bar>b\<bar>)"

subsection \<open>Arrays\<close>

text \<open>\<open>xs[i]\<close>: \<open>undefined\<close> (here \<open>None\<close>) outside the array.\<close>

definition js_index :: "'a list \<Rightarrow> int \<Rightarrow> 'a option" where
  "js_index xs i = (if 0 \<le> i \<and> i < int (length xs) then Some (xs ! nat i) else None)"

text \<open>
  The value of a mapped array element: an object, or an array (which \<open>flat()\<close> splices
  into the result, one level deep).
\<close>

datatype 'a js_elem = Elem 'a | Arr "'a list"

fun flat :: "'a js_elem list \<Rightarrow> 'a list" where
  "flat [] = []"
| "flat (Elem x # es) = x # flat es"
| "flat (Arr xs # es) = xs @ flat es"

subsection \<open>Thrown values\<close>

text \<open>A thrown value: an \<open>Error\<close> with its message, or another value with what
  \<open>String\<close> makes of it.\<close>

datatype thrown = Error js_string | NonError js_string

text \<open>\<open>err instanceof Error ? err.message : String(err)\<close>.\<close>

fun error_text :: "thrown \<Rightarrow> js_string" where
  "error_text (Error m) = m"
| "error_text (NonError s) = s"

text \<open>
  How the pipeline fails: with a value thrown by a collaborator or by the pipeline
  itself, or with the error that the document library raises when it refuses the
  colour or the size of a run.
\<close>

datatype failure = Thrown thrown | Invalid_run_option

text \<open>\<open>Array.prototype.map\<close> with a callback that may raise: the first raise ends it.\<close>

fun map_raising :: "('a \<Rightarrow> failure + 'b) \<Rightarrow> 'a list \<Rightarrow> failure + 'b list" where
  "map_raising f [] = Inr []"
| "map_raising f (x # xs) =
     (case f x of
        Inl e \<Rightarrow> Inl e
      | Inr y \<Rightarrow> (case map_raising f xs of Inl e \<Rightarrow> Inl e | Inr ys \<Rightarrow> Inr (y # ys)))"


section \<open>The key store (src/lib/apiKeysStore.ts)\<close>

datatype Provider = gemini

record ApiKeyRecord =
  key_id :: js_string
  provider :: Provider
  key :: js_string
  label :: "js_string option"
  createdAt :: js_string
  key_enabled :: bool
  flagged :: "bool option"

datatype Strategy = hourly | minute

record RotationConfig =
  enabled :: bool
  strategy :: Strategy

record ApiKeysStoreShape =
  providers :: "Provider \<Rightarrow> ApiKeyRecord list"
  rotation :: "Provider \<Rightarrow> RotationConfig"

text \<open>
  A \<open>Date\<close>: a time value in milliseconds since the epoch (an integer, on which the
  division followed by \<open>Math.floor\<close> is integer floor division over the whole range of
  \<open>Date\<close>), or an invalid date, whose \<open>getTime()\<close> is NaN.
\<close>

datatype Date = Date int | Invalid_Date

text \<open>\<open>undefined.key\<close> raises a TypeError.\<close>

datatype store_error = TypeError

text \<open>The filter of \<open>getRotatingGeminiKey\<close>: \<open>k.enabled && !k.flagged\<close>
  (an absent \<open>flagged\<close> is falsy).\<close>

definition eligible :: "ApiKeyRecord \<Rightarrow> bool" where
  "eligible k = (key_enabled k \<and> \<not> (case flagged k of None \<Rightarrow> False | Some f \<Rightarrow> f))"

text \<open>
  \<open>getRotatingGeminiKey\<close>, on the store that \<open>readStore()\<close> returns and the date
  (the caller's, or the current time by default). \<open>Inr None\<close> is \<open>null\<close>.
\<close>

definition getRotatingGeminiKey :: "ApiKeysStoreShape \<Rightarrow> Date \<Rightarrow> store_error + js_string option" where
  "getRotatingGeminiKey store date =
     (let keys = filter eligible (providers store gemini) in
      if length keys = 0 then Inr None
      else if \<not> enabled (rotation store gemini) then Inr (Some (key (keys ! 0)))
      else
        (case date of
           Invalid_Date \<Rightarrow> Inl TypeError
         | Date t \<Rightarrow>
             (let baseIndex = (if strategy (rotation store gemini) = minute
                               then t div 60000 else t div 3600000);
                  idx = js_rem baseIndex (int (length keys))
              in case js_index keys idx of
                   None \<Rightarrow> Inl TypeError
                 | Some k \<Rightarrow> Inr (Some (key k)))))"

text \<open>The interval of a strategy, in milliseconds.\<close>

definition interval :: "Strategy \<Rightarrow> int" where
  "interval s = (if s = minute then 60000 else 3600000)"


section \<open>The extraction schema (the zod schemas of the conversion pipeline)\<close>

record ContentItem =
  item_text :: js_string
  bold :: "bool option"
  italic :: "bool option"
  color :: "js_string option"
  fontSize :: "number option"

datatype StructType =
  ty_heading | ty_paragraph | ty_list | ty_table | ty_image | ty_section_break | ty_page_break

datatype Alignment = al_left | al_center | al_right | al_justify

record Position =
  pos_x :: "number option"
  pos_y :: "number option"
  pos_page :: "number option"

record Struct =
  struct_type :: StructType
  level :: "number option"
  items :: "js_string list option"
  rows :: "js_string list list option"
  imageDescription :: "js_string option"
  alignment :: "Alignment option"
  position :: "Position option"

text \<open>The output of a prompt and of the flow: \<open>{ content, structure }\<close>.\<close>

record Extraction =
  content :: "ContentItem list"
  structure_list :: "Struct list"


section \<open>The objects of the docx library that the pipeline builds\<close>

text \<open>
  The docx library is a dependency of the repository. Its objects are modelled by the
  options the pipeline gives to their constructors, and its constructors by the checks
  they make on these options: of the constructors used, only \<open>TextRun\<close> refuses
  options, namely a colour that is not a hex colour and a negative size.
\<close>

record TextRun =
  run_text :: js_string
  run_bold :: "bool option"
  run_italics :: "bool option"
  run_color :: "js_string option"
  run_size :: "number option"

text \<open>The keys of the library's \<open>HeadingLevel\<close>.\<close>

datatype HeadingLevel =
  HEADING_1 | HEADING_2 | HEADING_3 | HEADING_4 | HEADING_5 | HEADING_6 | TITLE

datatype FileChild =
    Paragraph "HeadingLevel option" "TextRun list"
  | Table "TableRow list"
and TableRow = TableRow "TableCell list"
and TableCell = TableCell "FileChild list"

record Section =
  children :: "FileChild list"

datatype Document = Document "Section list"

fun table_rows :: "FileChild \<Rightarrow> TableRow list" where
  "table_rows (Table rs) = rs"
| "table_rows (Paragraph h cs) = []"

fun row_cells :: "TableRow \<Rightarrow> TableCell list" where
  "row_cells (TableRow cs) = cs"

text \<open>The hexadecimal digits, and the white space that \<open>Number\<close> strips from the
  end of a string.\<close>

definition is_hex_digit :: "nat \<Rightarrow> bool" where
  "is_hex_digit u = ((48 \<le> u \<and> u \<le> 57) \<or> (65 \<le> u \<and> u \<le> 70) \<or> (97 \<le> u \<and> u \<le> 102))"

definition is_white_space :: "nat \<Rightarrow> bool" where
  "is_white_space u =
     (u \<in> {9, 10, 11, 12, 13, 32, 160, 5760, 8232, 8233, 8239, 8287, 12288, 65279}
      \<or> (8192 \<le> u \<and> u \<le> 8202))"

text \<open>
  The library's \<open>hexBinary(val, 3)\<close> accepts \<open>val\<close> when it has six code units and
  \<open>Number('0x' + val)\<close> is not NaN, that is when \<open>val\<close> is one hex digit or more,
  followed by white space only.
\<close>

definition hexBinary_ok :: "js_string \<Rightarrow> bool" where
  "hexBinary_ok val =
     (length val = 6 \<and> takeWhile is_hex_digit val \<noteq> []
      \<and> list_all is_white_space (dropWhile is_hex_digit val))"

text \<open>The library's \<open>hexColorValue\<close>: \<open>auto\<close>, or a hex value after a leading
  \<open>#\<close> is taken off.\<close>

definition hexColorValue_ok :: "js_string \<Rightarrow> bool" where
  "hexColorValue_ok val =
     (val = js ''auto'' \<or> hexBinary_ok (if take 1 val = js ''#'' then drop 1 val else val))"

text \<open>The library's \<open>unsignedDecimalNumber\<close>: it refuses a number whose floor is
  negative.\<close>

fun unsignedDecimalNumber_ok :: "number \<Rightarrow> bool" where
  "unsignedDecimalNumber_ok (Num x) = (0 \<le> \<lfloor>x\<rfloor>)"
| "unsignedDecimalNumber_ok Infinity = True"
| "unsignedDecimalNumber_ok Neg_Infinity = False"

text \<open>
  \<open>new TextRun(options)\<close>: the colour is checked when it is present and not empty, the
  size when it is present; the constructor raises when a check fails.
\<close>

definition new_TextRun :: "TextRun \<Rightarrow> failure + TextRun" where
  "new_TextRun options =
     (if (case run_color options of
            None \<Rightarrow> True
          | Some c \<Rightarrow> c = [] \<or> hexColorValue_ok c)
         \<and> (case run_size options of
               None \<Rightarrow> True
             | Some n \<Rightarrow> unsignedDecimalNumber_ok n)
      then Inr options
      else Inl Invalid_run_option)"

text \<open>\<open>{ text: t }\<close>: the options of a run with no styling, which the constructor
  never refuses.\<close>

definition plain_run :: "js_string \<Rightarrow> TextRun" where
  "plain_run t = \<lparr>run_text = t, run_bold = None, run_italics = None, run_color = None,
                  run_size = None\<rparr>"

text \<open>
  \<open>HeadingLevel[`HEADING_${n}`]\<close>: the template renders the numbers 1 to 6 as the
  digits of the six heading keys; for every other number the key does not exist and the
  lookup is \<open>undefined\<close>.
\<close>

definition heading_key :: "number \<Rightarrow> HeadingLevel option" where
  "heading_key n =
     (if n = Num 1 then Some HEADING_1 else if n = Num 2 then Some HEADING_2
      else if n = Num 3 then Some HEADING_3 else if n = Num 4 then Some HEADING_4
      else if n = Num 5 then Some HEADING_5 else if n = Num 6 then Some HEADING_6
      else None)"


section \<open>Assembly: the body of \<open>pdfToWord\<close> after a successful extraction\<close>

text \<open>
  The options of the run of one content item. \<open>item.color?.substring(1)\<close> drops the
  first code unit of a present colour; \<open>item.fontSize ? item.fontSize * 2 : 22\<close>.
\<close>

definition contentRunOptions :: "ContentItem \<Rightarrow> TextRun" where
  "contentRunOptions item =
     \<lparr>run_text = item_text item,
      run_bold = bold item,
      run_italics = italic item,
      run_color = map_option (drop 1) (color item),
      run_size = Some (case fontSize item of
                         None \<Rightarrow> Num 22
                       | Some f \<Rightarrow> if f = Num 0 then Num 22 else times_2 f)\<rparr>"

text \<open>The paragraph of one content item (the function mapped over
  \<open>result.content\<close>).\<close>

definition contentParagraph :: "ContentItem \<Rightarrow> failure + FileChild" where
  "contentParagraph item =
     (case new_TextRun (contentRunOptions item) of
        Inl e \<Rightarrow> Inl e
      | Inr run \<Rightarrow> Inr (Paragraph None [run]))"

definition paragraphs :: "Extraction \<Rightarrow> failure + FileChild list" where
  "paragraphs result = map_raising contentParagraph (content result)"

text \<open>\<open>struct.level || 1\<close>, used for the heading key and for the font size.\<close>

definition level_or_1 :: "Struct \<Rightarrow> number" where
  "level_or_1 struct = or_number (level struct) (Num 1)"

text \<open>\<open>struct.items?.join(' ') || ''\<close>.\<close>

definition items_text :: "Struct \<Rightarrow> js_string" where
  "items_text struct = or_string (map_option (join (js '' '')) (items struct)) []"

text \<open>The three characters before the item in the list template (U+00E2, U+20AC,
  U+00A2).\<close>

definition bullet :: js_string where
  "bullet = [0xE2, 0x20AC, 0xA2]"

text \<open>
  The function mapped over \<open>result.structure\<close>: the \<open>switch\<close> on \<open>struct.type\<close>.
  Only the run of a heading has a size, so only that branch can raise; the runs of the
  other branches have options that the constructor accepts.
\<close>

definition structChild :: "Struct \<Rightarrow> failure + FileChild js_elem" where
  "structChild struct =
     (case struct_type struct of
        ty_heading \<Rightarrow>
          (case new_TextRun
                  \<lparr>run_text = items_text struct, run_bold = Some True, run_italics = None,
                   run_color = None,
                   run_size = Some (minus_from_24 (times_2 (level_or_1 struct)))\<rparr> of
             Inl e \<Rightarrow> Inl e
           | Inr run \<Rightarrow> Inr (Elem (Paragraph (heading_key (level_or_1 struct)) [run])))
      | ty_list \<Rightarrow>
          Inr (Elem (Paragraph None
                  (case items struct of
                     None \<Rightarrow> []
                   | Some xs \<Rightarrow> map (\<lambda>item. plain_run (bullet @ js '' '' @ item @ [10])) xs)))
      | ty_table \<Rightarrow>
          (case rows struct of
             None \<Rightarrow> Inr (Arr [])
           | Some rs \<Rightarrow>
               if length rs > 0
               then Inr (Elem (Table (map (\<lambda>row. TableRow
                        (map (\<lambda>cell. TableCell [Paragraph None [plain_run cell]]) row)) rs)))
               else Inr (Arr []))
      | ty_image \<Rightarrow>
          Inr (Elem (Paragraph None
                  [\<lparr>run_text = js ''[Image: ''
                                 @ or_string (imageDescription struct) (js ''Visual content'')
                                 @ js '']'',
                    run_bold = None, run_italics = Some True, run_color = Some (js ''0000FF''),
                    run_size = None\<rparr>]))
      | ty_page_break \<Rightarrow> Inr (Elem (Paragraph None [plain_run [12]]))
      | _ \<Rightarrow> Inr (Elem (Paragraph None [plain_run (items_text struct)])))"

definition structuredContent :: "Extraction \<Rightarrow> failure + FileChild list" where
  "structuredContent result =
     (case map_raising structChild (structure_list result) of
        Inl e \<Rightarrow> Inl e
      | Inr es \<Rightarrow> Inr (flat es))"

text \<open>
  The document handed to the packer, \<open>children: [...structuredContent, ...paragraphs]\<close>.
  The paragraphs of the content are built first, then the structure.
\<close>

definition doc :: "Extraction \<Rightarrow> failure + Document" where
  "doc result =
     (case paragraphs result of
        Inl e \<Rightarrow> Inl e
      | Inr ps \<Rightarrow>
          (case structuredContent result of
             Inl e \<Rightarrow> Inl e
           | Inr sc \<Rightarrow> Inr (Document [\<lparr>children = sc @ ps\<rparr>])))"


section \<open>The extraction flow and the top-level pipeline\<close>

text \<open>
  Modelled from the spec: \<open>PdfToWordInput\<close> and \<open>PdfToWordOutput\<close> are declared in
  \<open>@/lib/types\<close>, which is not among the sources; the pipeline reads \<open>pdfUri\<close> and
  \<open>conversionMode\<close> of the input and builds \<open>{ docxUri }\<close>. The mode is kept a
  string, so that every value other than \<open>no_ocr\<close> is covered.
\<close>

record PdfToWordInput =
  pdfUri :: js_string
  conversionMode :: js_string

record PdfToWordOutput =
  docxUri :: js_string

text \<open>
  The collaborators of the pipeline, each called at most once in a run, so that the
  outcome of a call is a function of its argument: the two prompts (which throw, or
  resolve to an output that may be null), the converter without AI, and the packer with
  the base64 rendering of its buffer.
\<close>

record env =
  pdfToWordPrompt :: "js_string \<Rightarrow> thrown + Extraction option"
  pdfToWordPrompt15 :: "js_string \<Rightarrow> thrown + Extraction option"
  pdfToWordNoOcr :: "PdfToWordInput \<Rightarrow> thrown + PdfToWordOutput"
  Packer_toBuffer :: "Document \<Rightarrow> thrown + nat list"
  toString_base64 :: "nat list \<Rightarrow> js_string"

text \<open>The calls a run makes to its collaborators, in order.\<close>

datatype call =
    Call_pdfToWordPrompt js_string
  | Call_pdfToWordPrompt15 js_string
  | Call_pdfToWordNoOcr PdfToWordInput
  | Call_Packer Document

text \<open>The body of a \<open>try\<close> of the flow: await the prompt, throw the given message on
  a null output, return the output otherwise.\<close>

fun attempt :: "thrown + Extraction option \<Rightarrow> js_string \<Rightarrow> thrown + Extraction" where
  "attempt (Inl e) m = Inl e"
| "attempt (Inr None) m = Inl (Error m)"
| "attempt (Inr (Some output)) m = Inr output"

definition hint :: js_string where
  "hint = js ''Verify your API key is valid and enabled, and that outbound network access to generativelanguage.googleapis.com is allowed.''"

text \<open>
  \<open>pdfToWordFlow\<close> (the function given to \<open>defineFlow\<close>). It throws only
  \<open>new Error(m)\<close>, which is \<open>Inl m\<close> here.
\<close>

definition pdfToWordFlow :: "env \<Rightarrow> js_string \<Rightarrow> (js_string + Extraction) \<times> call list" where
  "pdfToWordFlow env uri =
     (case attempt (pdfToWordPrompt env uri) (js ''The AI failed to process the PDF content.'') of
        Inr output \<Rightarrow> (Inr output, [Call_pdfToWordPrompt uri])
      | Inl err \<Rightarrow>
          (case attempt (pdfToWordPrompt15 env uri)
                  (js ''The AI failed to process the PDF content (fallback).'') of
             Inr output \<Rightarrow> (Inr output, [Call_pdfToWordPrompt uri, Call_pdfToWordPrompt15 uri])
           | Inl err2 \<Rightarrow>
               (Inl (js ''Gemini request failed: '' @ error_text err
                       @ js ''. Fallback model also failed: '' @ error_text err2 @ js ''. ''
                       @ hint),
                [Call_pdfToWordPrompt uri, Call_pdfToWordPrompt15 uri])))"

definition data_uri_prefix :: js_string where
  "data_uri_prefix = js ''data:application/vnd.openxmlformats-officedocument.wordprocessingml.document;base64,''"

text \<open>The outcome of awaiting a collaborator, as an outcome of the pipeline.\<close>

fun rethrow :: "thrown + 'a \<Rightarrow> failure + 'a" where
  "rethrow (Inl e) = Inl (Thrown e)"
| "rethrow (Inr v) = Inr v"

text \<open>\<open>pdfToWord\<close>: its outcome and the calls it made.\<close>

definition pdfToWord :: "env \<Rightarrow> PdfToWordInput \<Rightarrow> (failure + PdfToWordOutput) \<times> call list" where
  "pdfToWord env input =
     (if conversionMode input = js ''no_ocr''
      then (rethrow (pdfToWordNoOcr env input), [Call_pdfToWordNoOcr input])
      else
        (case pdfToWordFlow env (pdfUri input) of
           (Inl e, calls) \<Rightarrow>
             (case pdfToWordNoOcr env input of
                Inr fallback \<Rightarrow> (Inr fallback, calls @ [Call_pdfToWordNoOcr input])
              | Inl e2 \<Rightarrow>
                  (Inl (Thrown (Error (or_string (Some e)
                          (js ''AI conversion failed and fallback converter was not available.'')))),
                   calls @ [Call_pdfToWordNoOcr input]))
         | (Inr result, calls) \<Rightarrow>
             (case doc result of
                Inl e \<Rightarrow> (Inl e, calls)
              | Inr d \<Rightarrow>
                  (case Packer_toBuffer env d of
                     Inl e \<Rightarrow> (Inl (Thrown e), calls @ [Call_Packer d])
                   | Inr docxBuffer \<Rightarrow>
                       (Inr \<lparr>docxUri = data_uri_prefix @ toString_base64 env docxBuffer\<rparr>,
                        calls @ [Call_Packer d])))))"


section \<open>Example inputs\<close>

definition ex_key :: "string \<Rightarrow> bool \<Rightarrow> bool option \<Rightarrow> ApiKeyRecord" where
  "ex_key k e f = \<lparr>key_id = js ''key_'' @ js k, provider = gemini, key = js k, label = None,
                    createdAt = js ''2025-01-01T00:00:00.000Z'', key_enabled = e, flagged = f\<rparr>"

text \<open>Four stored keys, of which the first and the last are enabled and not flagged.\<close>

definition ex_store :: "bool \<Rightarrow> Strategy \<Rightarrow> ApiKeysStoreShape" where
  "ex_store e s =
     \<lparr>providers = (\<lambda>_. [ex_key ''AAA'' True None, ex_key ''BBB'' True (Some True),
                          ex_key ''CCC'' False None, ex_key ''DDD'' True (Some False)]),
      rotation = (\<lambda>_. \<lparr>enabled = e, strategy = s\<rparr>)\<rparr>"

definition ex_struct :: "StructType \<Rightarrow> Struct" where
  "ex_struct t = \<lparr>struct_type = t, level = None, items = None, rows = None,
                   imageDescription = None, alignment = None, position = None\<rparr>"

definition ex_heading :: "number option \<Rightarrow> Struct" where
  "ex_heading l = (ex_struct ty_heading)\<lparr>level := l, items := Some [js ''Intro'']\<rparr>"

definition ex_table :: "js_string list list option \<Rightarrow> Struct" where
  "ex_table rs = (ex_struct ty_table)\<lparr>rows := rs\<rparr>"

definition ex_item :: ContentItem where
  "ex_item = \<lparr>item_text = js ''Hello'', bold = Some True, italic = None,
               color = Some (js ''#FF0000''), fontSize = Some (Num 12)\<rparr>"

definition ex_plain_item :: ContentItem where
  "ex_plain_item = \<lparr>item_text = js ''World'', bold = None, italic = None, color = None,
                     fontSize = None\<rparr>"


definition ex_bare_color_item :: ContentItem where
  "ex_bare_color_item = \<lparr>item_text = js ''Hello'', bold = None, italic = None,
                          color = Some (js ''FF0000''), fontSize = None\<rparr>"

definition ex_result :: Extraction where
  "ex_result =
     \<lparr>content = [ex_item, ex_plain_item],
      structure_list = [ex_heading (Some (Num 3)), ex_table (Some []),
                        ex_table (Some [[js ''a'', js ''b''], [js ''c'']])]\<rparr>"

definition ex_env ::
  "(thrown + Extraction option) \<Rightarrow> (thrown + Extraction option) \<Rightarrow> (thrown + PdfToWordOutput) \<Rightarrow> env"
where
  "ex_env a b c =
     \<lparr>pdfToWordPrompt = (\<lambda>_. a), pdfToWordPrompt15 = (\<lambda>_. b), pdfToWordNoOcr = (\<lambda>_. c),
      Packer_toBuffer = (\<lambda>_. Inr [80, 75]), toString_base64 = (\<lambda>_. js ''UEs='')\<rparr>"

definition ex_input :: "string \<Rightarrow> PdfToWordInput" where
  "ex_input m = \<lparr>pdfUri = js ''data:application/pdf;base64,JVBERg=='', conversionMode = js m\<rparr>"


section \<open>Auxiliary facts\<close>

subsection \<open>Numbers and strings\<close>

lemma round_double_values:
  "round_double 2 = Num 2" "round_double 6 = Num 6" "round_double 14 = Num 14"
  "round_double 26 = Num 26" "round_double 24 = Num 24"
  "round_double 22 = Num 22" "round_double 18 = Num 18" "round_double 10 = Num 10"
  "round_double (- 2) = Num (- 2)" "round_double (- 10) = Num (- 10)"
  by code_simp+

lemma double_arith:
  "times_2 (Num 1) = Num 2" "minus_from_24 (Num 2) = Num 22"
  "times_2 (Num 3) = Num 6" "minus_from_24 (Num 6) = Num 18"
  "times_2 (Num 7) = Num 14" "minus_from_24 (Num 14) = Num 10"
  "times_2 (Num 13) = Num 26" "minus_from_24 (Num 26) = Num (- 2)"
  "times_2 (Num 12) = Num 24" "times_2 (Num (- 5)) = Num (- 10)"
  by (simp_all add: round_double_values)

lemma js_append: "js (s @ t) = js s @ js t"
  by (simp add: js_def)

lemma js_inject: "(js s = js t) = (s = t)"
  by (simp add: js_def inj_map_eq_map inj_on_def)

lemma js_rem_nonneg: "0 \<le> a \<Longrightarrow> 0 < b \<Longrightarrow> js_rem a b = a mod b"
  by (simp add: js_rem_def sgn_if)

lemma js_index_mod:
  "xs \<noteq> [] \<Longrightarrow> js_index xs (a mod int (length xs)) = Some (xs ! nat (a mod int (length xs)))"
  by (simp add: js_index_def)

lemma find_filter_case:
  "find P xs = (case filter P xs of [] \<Rightarrow> None | x # _ \<Rightarrow> Some x)"
  by (induction xs) simp_all


lemma map_raising_Inr:
  "(map_raising f xs = Inr ys) = list_all2 (\<lambda>x y. f x = Inr y) xs ys"
proof (induction xs arbitrary: ys)
  case Nil
  show ?case by auto
next
  case (Cons x xs)
  show ?case
  proof (cases "f x")
    case (Inl e)
    then show ?thesis by (auto simp: list_all2_Cons1)
  next
    case (Inr y)
    then show ?thesis
      using Cons.IH by (cases "map_raising f xs") (auto simp: list_all2_Cons1)
  qed
qed



subsection \<open>The key store\<close>

lemma ex_key_sel:
  "key (ex_key k e f) = js k"
  "eligible (ex_key k e f) = (e \<and> f \<noteq> Some True)"
  by (cases f; simp add: ex_key_def eligible_def)+

lemma ex_store_sel:
  "providers (ex_store e s) gemini =
     [ex_key ''AAA'' True None, ex_key ''BBB'' True (Some True),
      ex_key ''CCC'' False None, ex_key ''DDD'' True (Some False)]"
  "enabled (rotation (ex_store e s) gemini) = e"
  "strategy (rotation (ex_store e s) gemini) = s"
  by (simp_all add: ex_store_def)

subsection \<open>Runs and assembly\<close>

lemma new_TextRun_plain: "new_TextRun (plain_run t) = Inr (plain_run t)"
  by (simp add: new_TextRun_def plain_run_def)

lemma new_TextRun_image:
  "new_TextRun \<lparr>run_text = t, run_bold = None, run_italics = Some True,
                run_color = Some (js ''0000FF''), run_size = None\<rparr>
   = Inr \<lparr>run_text = t, run_bold = None, run_italics = Some True,
          run_color = Some (js ''0000FF''), run_size = None\<rparr>"
  by (simp add: new_TextRun_def hexColorValue_ok_def hexBinary_ok_def js_def is_hex_digit_def)

lemma hexBinary_ok_digits:
  "length h = 6 \<Longrightarrow> list_all is_hex_digit h \<Longrightarrow> hexBinary_ok h"
proof -
  assume l: "length h = 6" and a: "list_all is_hex_digit h"
  from a have t: "takeWhile is_hex_digit h = h" and d: "dropWhile is_hex_digit h = []"
    by (simp_all add: list_all_iff)
  from l have "h \<noteq> []" by auto
  with l show ?thesis unfolding hexBinary_ok_def t d by simp
qed

lemma hexColorValue_ok_digits:
  "length h = 6 \<Longrightarrow> list_all is_hex_digit h \<Longrightarrow> hexColorValue_ok h"
proof -
  assume l: "length h = 6" and a: "list_all is_hex_digit h"
  then obtain u us where h: "h = u # us" by (cases h) auto
  with a have "is_hex_digit u" by simp
  then have "u \<noteq> 35" by (auto simp: is_hex_digit_def)
  with h have "take 1 h \<noteq> js ''#''" by (simp add: js_def)
  with hexBinary_ok_digits [OF l a] show ?thesis by (simp add: hexColorValue_ok_def)
qed





subsection \<open>The flow and the pipeline\<close>

lemma attempt_Inr: "(attempt x m = Inr r) = (x = Inr (Some r))"
  by (cases "(x, m)" rule: attempt.cases) auto

lemma flow_error_nonempty: "fst (pdfToWordFlow env uri) = Inl m \<Longrightarrow> m \<noteq> []"
  by (auto simp: pdfToWordFlow_def js_def split: sum.splits)

lemma ex_env_sel:
  "pdfToWordPrompt (ex_env a b c) u = a"
  "pdfToWordPrompt15 (ex_env a b c) u = b"
  "pdfToWordNoOcr (ex_env a b c) i = c"
  "Packer_toBuffer (ex_env a b c) d = Inr [80, 75]"
  "toString_base64 (ex_env a b c) buf = js ''UEs=''"
  by (simp_all add: ex_env_def)

lemma ex_input_sel:
  "pdfUri (ex_input m) = js ''data:application/pdf;base64,JVBERg==''"
  "conversionMode (ex_input m) = js m"
  by (simp_all add: ex_input_def)


lemma ex_paragraphs:
  "paragraphs ex_result =
     Inr [Paragraph None
            [\<lparr>run_text = js ''Hello'', run_bold = Some True, run_italics = None,
              run_color = Some (js ''FF0000''), run_size = Some (Num 24)\<rparr>],
          Paragraph None
            [\<lparr>run_text = js ''World'', run_bold = None, run_italics = None, run_color = None,
              run_size = Some (Num 22)\<rparr>]]"
  by (simp add: paragraphs_def ex_result_def contentParagraph_def contentRunOptions_def
        ex_item_def ex_plain_item_def new_TextRun_def hexColorValue_ok_def hexBinary_ok_def
        js_def is_hex_digit_def round_double_values)


section \<open>Assembly\<close>







text \<open>
  C5. A table node whose rows are present and not empty gives exactly one block, a table
  with one row per row of the node and, in each row, one cell per string of that row,
  each cell holding one paragraph with one run that has the string as its text and no
  styling; nothing is padded. A table node whose rows are absent or empty gives no
  block. In neither case does the node raise.
\<close>

theorem table_mirrors_rows:
  "struct_type s = ty_table \<longrightarrow>
     (rows s = Some rs \<and> rs \<noteq> [] \<longrightarrow>
        (let t = Table (map (\<lambda>row. TableRow
                     (map (\<lambda>cell. TableCell [Paragraph None
                        [\<lparr>run_text = cell, run_bold = None, run_italics = None,
                          run_color = None, run_size = None\<rparr>]]) row)) rs)
         in structChild s = Inr (Elem t)
            \<and> structuredContent \<lparr>content = c, structure_list = [s]\<rparr> = Inr [t]
            \<and> length (table_rows t) = length rs
            \<and> (\<forall>i < length rs.
                  length (row_cells (table_rows t ! i)) = length (rs ! i)
                  \<and> (\<forall>j < length (rs ! i).
                        row_cells (table_rows t ! i) ! j
                          = TableCell [Paragraph None
                              [\<lparr>run_text = rs ! i ! j, run_bold = None, run_italics = None,
                                run_color = None, run_size = None\<rparr>]]))))
     \<and> (rows s = None \<or> rows s = Some [] \<longrightarrow>
           structChild s = Inr (Arr [])
           \<and> structuredContent \<lparr>content = c, structure_list = [s]\<rparr> = Inr [])"
proof (intro impI conjI)
  assume t: "struct_type s = ty_table"
  {
    assume e: "rows s = None \<or> rows s = Some []"
    with t show a: "structChild s = Inr (Arr [])"
      by (auto simp: structChild_def)
    show "structuredContent \<lparr>content = c, structure_list = [s]\<rparr> = Inr []"
      by (simp add: structuredContent_def a)
  }
  assume r: "rows s = Some rs \<and> rs \<noteq> []"
  let ?t = "Table (map (\<lambda>row. TableRow
                     (map (\<lambda>cell. TableCell [Paragraph None
                        [\<lparr>run_text = cell, run_bold = None, run_italics = None,
                          run_color = None, run_size = None\<rparr>]]) row)) rs)"
  have c: "structChild s = Inr (Elem ?t)"
    using t r by (simp add: structChild_def plain_run_def)
  have f: "structuredContent \<lparr>content = c, structure_list = [s]\<rparr> = Inr [?t]"
    by (simp add: structuredContent_def c)
  show "let t = ?t
        in structChild s = Inr (Elem t)
            \<and> structuredContent \<lparr>content = c, structure_list = [s]\<rparr> = Inr [t]
            \<and> length (table_rows t) = length rs
            \<and> (\<forall>i < length rs.
                  length (row_cells (table_rows t ! i)) = length (rs ! i)
                  \<and> (\<forall>j < length (rs ! i).
                        row_cells (table_rows t ! i) ! j
                          = TableCell [Paragraph None
                              [\<lparr>run_text = rs ! i ! j, run_bold = None, run_italics = None,
                                run_color = None, run_size = None\<rparr>]]))"
    unfolding Let_def using c f by simp
qed

theorem table_mirrors_rows_witness:
  "struct_type (ex_table (Some [[js ''a'', js ''b''], [js ''c'']])) = ty_table
   \<and> rows (ex_table (Some [[js ''a'', js ''b''], [js ''c'']])) = Some [[js ''a'', js ''b''], [js ''c'']]
   \<and> structuredContent \<lparr>content = [], structure_list = [ex_table (Some [[js ''a'', js ''b''], [js ''c'']])]\<rparr>
       = Inr [Table
           [TableRow
              [TableCell [Paragraph None [\<lparr>run_text = js ''a'', run_bold = None,
                  run_italics = None, run_color = None, run_size = None\<rparr>]],
               TableCell [Paragraph None [\<lparr>run_text = js ''b'', run_bold = None,
                  run_italics = None, run_color = None, run_size = None\<rparr>]]],
            TableRow
              [TableCell [Paragraph None [\<lparr>run_text = js ''c'', run_bold = None,
                  run_italics = None, run_color = None, run_size = None\<rparr>]]]]]
   \<and> length (table_rows (hd (projr (structuredContent
        \<lparr>content = [], structure_list = [ex_table (Some [[js ''a'', js ''b''], [js ''c'']])]\<rparr>)))) = 2
   \<and> length (row_cells (table_rows (hd (projr (structuredContent
        \<lparr>content = [], structure_list = [ex_table (Some [[js ''a'', js ''b''], [js ''c'']])]\<rparr>))) ! 0)) = 2
   \<and> length (row_cells (table_rows (hd (projr (structuredContent
        \<lparr>content = [], structure_list = [ex_table (Some [[js ''a'', js ''b''], [js ''c'']])]\<rparr>))) ! 1)) = 1
   \<and> rows (ex_table (Some [])) = Some []
   \<and> structuredContent \<lparr>content = [], structure_list = [ex_table (Some [])]\<rparr> = Inr []
   \<and> rows (ex_table None) = None
   \<and> structuredContent \<lparr>content = [], structure_list = [ex_table None]\<rparr> = Inr []"
proof -
  let ?rs = "[[js ''a'', js ''b''], [js ''c'']]"
  have h: "struct_type (ex_table r) = ty_table" "rows (ex_table r) = r" for r
    by (simp_all add: ex_table_def ex_struct_def)
  have ne: "rows (ex_table (Some ?rs)) = Some ?rs \<and> ?rs \<noteq> []"
    by (simp add: h)
  note full = table_mirrors_rows [of "ex_table (Some ?rs)" ?rs "[]", rule_format, OF h(1),
      THEN conjunct1, rule_format, OF ne, unfolded Let_def]
  have sc: "structuredContent \<lparr>content = [], structure_list = [ex_table (Some ?rs)]\<rparr>
       = Inr [Table
           [TableRow
              [TableCell [Paragraph None [\<lparr>run_text = js ''a'', run_bold = None,
                  run_italics = None, run_color = None, run_size = None\<rparr>]],
               TableCell [Paragraph None [\<lparr>run_text = js ''b'', run_bold = None,
                  run_italics = None, run_color = None, run_size = None\<rparr>]]],
            TableRow
              [TableCell [Paragraph None [\<lparr>run_text = js ''c'', run_bold = None,
                  run_italics = None, run_color = None, run_size = None\<rparr>]]]]]"
    using full [THEN conjunct2, THEN conjunct1] by simp
  have e1: "rows (ex_table (Some [])) = None \<or> rows (ex_table (Some [])) = Some []"
    by (simp add: h)
  have e2: "rows (ex_table None) = None \<or> rows (ex_table None) = Some []"
    by (simp add: h)
  note empty1 = table_mirrors_rows [of "ex_table (Some [])" "[]" "[]", rule_format, OF h(1),
      THEN conjunct2, rule_format, OF e1, THEN conjunct2]
  note empty2 = table_mirrors_rows [of "ex_table None" "[]" "[]", rule_format, OF h(1),
      THEN conjunct2, rule_format, OF e2, THEN conjunct2]
  from sc empty1 empty2 h show ?thesis by simp
qed

text \<open>
  C6. A node whose type is none of heading, list, table, image and page break (so a
  section break or a paragraph) takes the default branch, which never raises: it gives
  exactly one paragraph with no heading and one run with no styling, whose text is the
  items of the node joined by one space, and the empty text when the items are absent
  or empty.
\<close>

theorem default_plain_text:
  "struct_type s \<noteq> ty_heading \<and> struct_type s \<noteq> ty_list \<and> struct_type s \<noteq> ty_table
     \<and> struct_type s \<noteq> ty_image \<and> struct_type s \<noteq> ty_page_break \<longrightarrow>
     (struct_type s = ty_section_break \<or> struct_type s = ty_paragraph)
     \<and> structChild s = Inr (Elem (Paragraph None
          [\<lparr>run_text = items_text s, run_bold = None, run_italics = None, run_color = None,
            run_size = None\<rparr>]))
     \<and> structuredContent \<lparr>content = c, structure_list = [s]\<rparr> = Inr [Paragraph None
          [\<lparr>run_text = items_text s, run_bold = None, run_italics = None, run_color = None,
            run_size = None\<rparr>]]
     \<and> items_text s = (case items s of None \<Rightarrow> [] | Some xs \<Rightarrow> join [32] xs)
     \<and> (items s = None \<or> items s = Some [] \<longrightarrow> items_text s = [])
     \<and> (items s = Some [x] \<longrightarrow> items_text s = x)
     \<and> (items s = Some (x # y # ys) \<longrightarrow> items_text s = x @ [32] @ join [32] (y # ys))"
proof (intro impI)
  assume a: "struct_type s \<noteq> ty_heading \<and> struct_type s \<noteq> ty_list \<and> struct_type s \<noteq> ty_table
     \<and> struct_type s \<noteq> ty_image \<and> struct_type s \<noteq> ty_page_break"
  have sp: "js '' '' = [32]"
    by (simp add: js_def)
  have ty: "struct_type s = ty_section_break \<or> struct_type s = ty_paragraph"
    using a by (cases "struct_type s") simp_all
  have ch: "structChild s = Inr (Elem (Paragraph None
          [\<lparr>run_text = items_text s, run_bold = None, run_italics = None, run_color = None,
            run_size = None\<rparr>]))"
    using ty by (auto simp: structChild_def plain_run_def)
  have sc: "structuredContent \<lparr>content = c, structure_list = [s]\<rparr> = Inr [Paragraph None
          [\<lparr>run_text = items_text s, run_bold = None, run_italics = None, run_color = None,
            run_size = None\<rparr>]]"
    by (simp add: structuredContent_def ch)
  have it: "items_text s = (case items s of None \<Rightarrow> [] | Some xs \<Rightarrow> join [32] xs)"
    by (simp add: items_text_def or_string_def sp split: option.splits)
  have i0: "items s = None \<or> items s = Some [] \<longrightarrow> items_text s = []"
    by (auto simp: it)
  have i1: "items s = Some [x] \<longrightarrow> items_text s = x"
    by (simp add: it)
  have i2: "items s = Some (x # y # ys) \<longrightarrow> items_text s = x @ [32] @ join [32] (y # ys)"
    by (simp add: it)
  from ty ch sc it i0 i1 i2
  show "(struct_type s = ty_section_break \<or> struct_type s = ty_paragraph)
     \<and> structChild s = Inr (Elem (Paragraph None
          [\<lparr>run_text = items_text s, run_bold = None, run_italics = None, run_color = None,
            run_size = None\<rparr>]))
     \<and> structuredContent \<lparr>content = c, structure_list = [s]\<rparr> = Inr [Paragraph None
          [\<lparr>run_text = items_text s, run_bold = None, run_italics = None, run_color = None,
            run_size = None\<rparr>]]
     \<and> items_text s = (case items s of None \<Rightarrow> [] | Some xs \<Rightarrow> join [32] xs)
     \<and> (items s = None \<or> items s = Some [] \<longrightarrow> items_text s = [])
     \<and> (items s = Some [x] \<longrightarrow> items_text s = x)
     \<and> (items s = Some (x # y # ys) \<longrightarrow> items_text s = x @ [32] @ join [32] (y # ys))"
    by blast
qed

theorem default_plain_text_witness:
  "struct_type (ex_struct ty_section_break) = ty_section_break
   \<and> items (ex_struct ty_section_break) = None
   \<and> structuredContent \<lparr>content = [], structure_list = [ex_struct ty_section_break]\<rparr>
       = Inr [Paragraph None
                [\<lparr>run_text = [], run_bold = None, run_italics = None, run_color = None,
                  run_size = None\<rparr>]]
   \<and> struct_type ((ex_struct ty_paragraph)\<lparr>items := Some [js ''one'', js ''two'', js ''three'']\<rparr>)
       = ty_paragraph
   \<and> items ((ex_struct ty_paragraph)\<lparr>items := Some [js ''one'', js ''two'', js ''three'']\<rparr>)
       = Some [js ''one'', js ''two'', js ''three'']
   \<and> structuredContent
        \<lparr>content = [],
         structure_list = [(ex_struct ty_paragraph)\<lparr>items := Some [js ''one'', js ''two'', js ''three'']\<rparr>]\<rparr>
       = Inr [Paragraph None
                [\<lparr>run_text = js ''one two three'', run_bold = None, run_italics = None,
                  run_color = None, run_size = None\<rparr>]]"
proof -
  let ?b = "ex_struct ty_section_break"
  let ?p = "(ex_struct ty_paragraph)\<lparr>items := Some [js ''one'', js ''two'', js ''three'']\<rparr>"
  have hb: "struct_type ?b = ty_section_break" "items ?b = None"
    by (simp_all add: ex_struct_def)
  have hp: "struct_type ?p = ty_paragraph" "items ?p = Some [js ''one'', js ''two'', js ''three'']"
    by (simp_all add: ex_struct_def)
  have pb: "struct_type ?b \<noteq> ty_heading \<and> struct_type ?b \<noteq> ty_list \<and> struct_type ?b \<noteq> ty_table
     \<and> struct_type ?b \<noteq> ty_image \<and> struct_type ?b \<noteq> ty_page_break"
    by (simp add: hb)
  have pp: "struct_type ?p \<noteq> ty_heading \<and> struct_type ?p \<noteq> ty_list \<and> struct_type ?p \<noteq> ty_table
     \<and> struct_type ?p \<noteq> ty_image \<and> struct_type ?p \<noteq> ty_page_break"
    by (simp add: hp)
  note tb = default_plain_text [of ?b "[]" "[]" "[]" "[]", rule_format, OF pb]
  note tp = default_plain_text [of ?p "[]" "js ''one''" "js ''two''" "[js ''three'']", rule_format, OF pp]
  have tx: "items_text ?b = []"
    using tb [THEN conjunct2, THEN conjunct2, THEN conjunct2, THEN conjunct2, THEN conjunct1]
    by (simp add: hb)
  have ty: "items_text ?p = js ''one two three''"
    using tp [THEN conjunct2, THEN conjunct2, THEN conjunct2, THEN conjunct2, THEN conjunct2,
        THEN conjunct2]
    by (simp add: hp js_def)
  have b: "structuredContent \<lparr>content = [], structure_list = [?b]\<rparr> = Inr [Paragraph None
                [\<lparr>run_text = [], run_bold = None, run_italics = None, run_color = None,
                  run_size = None\<rparr>]]"
    using tb [THEN conjunct2, THEN conjunct2, THEN conjunct1] by (simp add: tx)
  have p: "structuredContent \<lparr>content = [], structure_list = [?p]\<rparr> = Inr [Paragraph None
                [\<lparr>run_text = js ''one two three'', run_bold = None, run_italics = None,
                  run_color = None, run_size = None\<rparr>]]"
    using tp [THEN conjunct2, THEN conjunct2, THEN conjunct1] by (simp add: ty)
  from b p hb hp show ?thesis by simp
qed

text \<open>
  C9 (as amended). The run of a content item carries the text, the bold flag and the
  italic flag of the item as they are. A colour that is \<open>#\<close> followed by six hex digits
  is carried through without the \<open>#\<close>, and an absent colour stays absent. The size is
  22 when the font size is absent, and twice a present positive font size whenever that
  doubling is exact (it is, unless it overflows). For such an item the library accepts
  the run, and the content phase makes one paragraph of that one run per item.
\<close>

theorem content_run_conversion:
  "run_text (contentRunOptions item) = item_text item
   \<and> run_bold (contentRunOptions item) = bold item
   \<and> run_italics (contentRunOptions item) = italic item
   \<and> (color item = None \<longrightarrow> run_color (contentRunOptions item) = None)
   \<and> (color item = Some (js ''#'' @ h) \<and> length h = 6 \<and> list_all is_hex_digit h \<longrightarrow>
         run_color (contentRunOptions item) = Some h)
   \<and> (fontSize item = None \<longrightarrow> run_size (contentRunOptions item) = Some (Num 22))
   \<and> (fontSize item = Some (Num f) \<and> 0 < f \<and> times_2 (Num f) = Num (f * 2) \<longrightarrow>
         run_size (contentRunOptions item) = Some (Num (f * 2)))
   \<and> ((color item = None \<or> (color item = Some (js ''#'' @ h) \<and> length h = 6 \<and> list_all is_hex_digit h))
        \<and> (fontSize item = None
             \<or> (fontSize item = Some (Num f) \<and> 0 < f \<and> times_2 (Num f) = Num (f * 2))) \<longrightarrow>
         contentParagraph item = Inr (Paragraph None [contentRunOptions item]))
   \<and> (paragraphs r = Inr ps \<longrightarrow>
         length ps = length (content r)
         \<and> (\<forall>i < length (content r). ps ! i = Paragraph None [contentRunOptions (content r ! i)]))"
proof (intro conjI impI)
  show "run_text (contentRunOptions item) = item_text item"
    and "run_bold (contentRunOptions item) = bold item"
    and "run_italics (contentRunOptions item) = italic item"
    by (simp_all add: contentRunOptions_def)
  show "run_color (contentRunOptions item) = None" if "color item = None"
    using that by (simp add: contentRunOptions_def)
  show "run_color (contentRunOptions item) = Some h"
    if "color item = Some (js ''#'' @ h) \<and> length h = 6 \<and> list_all is_hex_digit h"
    using that by (simp add: contentRunOptions_def js_def)
  show "run_size (contentRunOptions item) = Some (Num 22)" if "fontSize item = None"
    using that by (simp add: contentRunOptions_def)
  show "run_size (contentRunOptions item) = Some (Num (f * 2))"
    if "fontSize item = Some (Num f) \<and> 0 < f \<and> times_2 (Num f) = Num (f * 2)"
    using that by (simp add: contentRunOptions_def)
next
  assume a: "(color item = None \<or> (color item = Some (js ''#'' @ h) \<and> length h = 6 \<and> list_all is_hex_digit h))
        \<and> (fontSize item = None
             \<or> (fontSize item = Some (Num f) \<and> 0 < f \<and> times_2 (Num f) = Num (f * 2)))"
  have c: "case run_color (contentRunOptions item) of None \<Rightarrow> True
           | Some c \<Rightarrow> c = [] \<or> hexColorValue_ok c"
    using a by (auto simp: contentRunOptions_def js_def hexColorValue_ok_digits)
  have s: "case run_size (contentRunOptions item) of None \<Rightarrow> True
           | Some n \<Rightarrow> unsignedDecimalNumber_ok n"
    using a by (auto simp: contentRunOptions_def)
  from c s have "new_TextRun (contentRunOptions item) = Inr (contentRunOptions item)"
    by (simp add: new_TextRun_def)
  then show "contentParagraph item = Inr (Paragraph None [contentRunOptions item])"
    by (simp add: contentParagraph_def)
next
  assume "paragraphs r = Inr ps"
  then have l: "list_all2 (\<lambda>x y. contentParagraph x = Inr y) (content r) ps"
    by (simp add: paragraphs_def map_raising_Inr)
  show "length ps = length (content r)"
    using l by (simp add: list_all2_lengthD)
  show "\<forall>i < length (content r). ps ! i = Paragraph None [contentRunOptions (content r ! i)]"
  proof (intro allI impI)
    fix i assume "i < length (content r)"
    with l have "contentParagraph (content r ! i) = Inr (ps ! i)"
      by (simp add: list_all2_conv_all_nth)
    then show "ps ! i = Paragraph None [contentRunOptions (content r ! i)]"
      by (auto simp: contentParagraph_def new_TextRun_def split: if_splits)
  qed
qed

theorem content_run_conversion_witness:
  "color ex_item = Some (js ''#'' @ js ''FF0000'')
   \<and> length (js ''FF0000'') = 6 \<and> list_all is_hex_digit (js ''FF0000'')
   \<and> fontSize ex_item = Some (Num 12) \<and> (0::rat) < 12 \<and> times_2 (Num 12) = Num (12 * 2)
   \<and> contentParagraph ex_item = Inr (Paragraph None
        [\<lparr>run_text = js ''Hello'', run_bold = Some True, run_italics = None,
          run_color = Some (js ''FF0000''), run_size = Some (Num 24)\<rparr>])
   \<and> color ex_plain_item = None \<and> fontSize ex_plain_item = None
   \<and> contentParagraph ex_plain_item = Inr (Paragraph None
        [\<lparr>run_text = js ''World'', run_bold = None, run_italics = None, run_color = None,
          run_size = Some (Num 22)\<rparr>])
   \<and> paragraphs ex_result = Inr (projr (paragraphs ex_result))
   \<and> length (projr (paragraphs ex_result)) = 2
   \<and> projr (paragraphs ex_result) ! 1 = Paragraph None [contentRunOptions ex_plain_item]"
proof -
  have a: "color ex_item = Some (js ''#'' @ js ''FF0000'')"
    "length (js ''FF0000'') = 6 \<and> list_all is_hex_digit (js ''FF0000'')"
    "fontSize ex_item = Some (Num 12)"
    by (simp_all add: ex_item_def js_def is_hex_digit_def)
  have d: "times_2 (Num 12) = Num (12 * 2)"
    by (simp add: round_double_values)
  have b: "color ex_plain_item = None" "fontSize ex_plain_item = None"
    by (simp_all add: ex_plain_item_def)
  have sel: "item_text ex_item = js ''Hello''" "bold ex_item = Some True" "italic ex_item = None"
    "item_text ex_plain_item = js ''World''" "bold ex_plain_item = None"
    "italic ex_plain_item = None"
    by (simp_all add: ex_item_def ex_plain_item_def)
  note t = content_run_conversion [of ex_item "js ''FF0000''" 12 ex_result
      "projr (paragraphs ex_result)"]
  note u = content_run_conversion [of ex_plain_item "[]" 1 ex_result
      "projr (paragraphs ex_result)"]
  have o1: "contentRunOptions ex_item = \<lparr>run_text = js ''Hello'', run_bold = Some True,
      run_italics = None, run_color = Some (js ''FF0000''), run_size = Some (Num 24)\<rparr>"
    using t a d sel by (cases "contentRunOptions ex_item") simp
  have o2: "contentRunOptions ex_plain_item = \<lparr>run_text = js ''World'', run_bold = None,
      run_italics = None, run_color = None, run_size = Some (Num 22)\<rparr>"
    using u b sel by (cases "contentRunOptions ex_plain_item") simp
  have p1: "contentParagraph ex_item = Inr (Paragraph None [contentRunOptions ex_item])"
    using t a d by simp
  have p2: "contentParagraph ex_plain_item = Inr (Paragraph None [contentRunOptions ex_plain_item])"
    using u b by simp
  have ps: "paragraphs ex_result = Inr (projr (paragraphs ex_result))"
    by (simp add: ex_paragraphs)
  have c: "content ex_result = [ex_item, ex_plain_item]"
    by (simp add: ex_result_def)
  note last = t [THEN conjunct2, THEN conjunct2, THEN conjunct2, THEN conjunct2, THEN conjunct2,
      THEN conjunct2, THEN conjunct2, THEN conjunct2, rule_format, OF ps]
  have n: "length (projr (paragraphs ex_result)) = 2"
    using last [THEN conjunct1] by (simp add: c)
  have i: "1 < length (content ex_result)"
    by (simp add: c)
  have e: "projr (paragraphs ex_result) ! 1 = Paragraph None [contentRunOptions ex_plain_item]"
    using last [THEN conjunct2, rule_format, OF i] by (simp add: c)
  from a d b p1 p2 o1 o2 ps n e show ?thesis by simp
qed

text \<open>
  The claim C9 as stated fails on the colour: the item's colour \<open>#FF0000\<close> reaches the
  run as \<open>FF0000\<close>, so it is not carried through unchanged.
\<close>

theorem content_color_counterexample:
  "color ex_item = Some (js ''#FF0000'')
   \<and> run_color (contentRunOptions ex_item) = Some (js ''FF0000'')
   \<and> run_color (contentRunOptions ex_item) \<noteq> color ex_item"
  by (simp add: contentRunOptions_def ex_item_def js_def)

section \<open>The flow and the pipeline\<close>

text \<open>
  C3. The flow calls the first prompt; when that attempt fails (it throws, or resolves to
  a null output) it calls the second prompt, and returns the second's output when that
  one succeeds. The flow fails exactly when both attempts fail. Its message is then
  \<open>Gemini request failed: \<close>, the description of the first failure,
  \<open>. Fallback model also failed: \<close>, the description of the second failure, \<open>. \<close> and
  the hint to verify the API key and the outbound network access to
  generativelanguage.googleapis.com; the description of a failure is the message of a
  thrown \<open>Error\<close>, the string of any other thrown value, and the fixed text of the
  attempt for a null output.
\<close>

theorem flow_fallback:
  "(pdfToWordPrompt env uri = Inr (Some r) \<longrightarrow>
      pdfToWordFlow env uri = (Inr r, [Call_pdfToWordPrompt uri]))
   \<and> ((\<forall>r'. pdfToWordPrompt env uri \<noteq> Inr (Some r')) \<and> pdfToWordPrompt15 env uri = Inr (Some r) \<longrightarrow>
      pdfToWordFlow env uri = (Inr r, [Call_pdfToWordPrompt uri, Call_pdfToWordPrompt15 uri]))
   \<and> ((\<exists>m. fst (pdfToWordFlow env uri) = Inl m) =
        ((\<forall>r'. pdfToWordPrompt env uri \<noteq> Inr (Some r')) \<and> (\<forall>r'. pdfToWordPrompt15 env uri \<noteq> Inr (Some r'))))
   \<and> ((attempt x d = Inl e) = (x = Inl e \<or> x = Inr None \<and> e = Error d))
   \<and> error_text (Error m1) = m1 \<and> error_text (NonError m2) = m2
   \<and> hint = js ''Verify your API key is valid and enabled, and that outbound network access to generativelanguage.googleapis.com is allowed.''
   \<and> (attempt (pdfToWordPrompt env uri) (js ''The AI failed to process the PDF content.'') = Inl e1
       \<and> attempt (pdfToWordPrompt15 env uri) (js ''The AI failed to process the PDF content (fallback).'') = Inl e2 \<longrightarrow>
        pdfToWordFlow env uri =
          (Inl (js ''Gemini request failed: '' @ error_text e1 @ js ''. Fallback model also failed: ''
                  @ error_text e2
                  @ js ''. Verify your API key is valid and enabled, and that outbound network access to generativelanguage.googleapis.com is allowed.''),
           [Call_pdfToWordPrompt uri, Call_pdfToWordPrompt15 uri])
        \<and> sublist (error_text e1) (projl (fst (pdfToWordFlow env uri)))
        \<and> sublist (error_text e2) (projl (fst (pdfToWordFlow env uri)))
        \<and> sublist (js ''Verify your API key is valid and enabled, and that outbound network access to generativelanguage.googleapis.com is allowed.'')
             (projl (fst (pdfToWordFlow env uri))))"
proof (intro conjI impI)
  assume "pdfToWordPrompt env uri = Inr (Some r)"
  then show "pdfToWordFlow env uri = (Inr r, [Call_pdfToWordPrompt uri])"
    by (simp add: pdfToWordFlow_def)
next
  assume a: "(\<forall>r'. pdfToWordPrompt env uri \<noteq> Inr (Some r')) \<and> pdfToWordPrompt15 env uri = Inr (Some r)"
  then have "\<exists>e. attempt (pdfToWordPrompt env uri) (js ''The AI failed to process the PDF content.'') = Inl e"
    by (cases "attempt (pdfToWordPrompt env uri) (js ''The AI failed to process the PDF content.'')")
       (auto simp: attempt_Inr)
  with a show "pdfToWordFlow env uri = (Inr r, [Call_pdfToWordPrompt uri, Call_pdfToWordPrompt15 uri])"
    by (auto simp: pdfToWordFlow_def)
next
  show "(\<exists>m. fst (pdfToWordFlow env uri) = Inl m) =
        ((\<forall>r'. pdfToWordPrompt env uri \<noteq> Inr (Some r')) \<and> (\<forall>r'. pdfToWordPrompt15 env uri \<noteq> Inr (Some r')))"
    by (auto simp: pdfToWordFlow_def attempt_Inr split: sum.splits)
next
  show "(attempt x d = Inl e) = (x = Inl e \<or> x = Inr None \<and> e = Error d)"
    by (cases "(x, d)" rule: attempt.cases) auto
next
  show "error_text (Error m1) = m1" and "error_text (NonError m2) = m2"
    by simp_all
next
  show "hint = js ''Verify your API key is valid and enabled, and that outbound network access to generativelanguage.googleapis.com is allowed.''"
    by (rule hint_def)
next
  let ?h = "js ''Verify your API key is valid and enabled, and that outbound network access to generativelanguage.googleapis.com is allowed.''"
  let ?msg = "js ''Gemini request failed: '' @ error_text e1 @ js ''. Fallback model also failed: ''
                  @ error_text e2 @ js ''. '' @ ?h"
  assume a: "attempt (pdfToWordPrompt env uri) (js ''The AI failed to process the PDF content.'') = Inl e1
       \<and> attempt (pdfToWordPrompt15 env uri) (js ''The AI failed to process the PDF content (fallback).'') = Inl e2"
  then have f: "pdfToWordFlow env uri = (Inl ?msg, [Call_pdfToWordPrompt uri, Call_pdfToWordPrompt15 uri])"
    by (simp add: pdfToWordFlow_def hint_def)
  have j: "js ''. '' @ ?h = js ''. Verify your API key is valid and enabled, and that outbound network access to generativelanguage.googleapis.com is allowed.''"
    by (simp add: js_append [symmetric])
  show "pdfToWordFlow env uri =
          (Inl (js ''Gemini request failed: '' @ error_text e1 @ js ''. Fallback model also failed: ''
                  @ error_text e2
                  @ js ''. Verify your API key is valid and enabled, and that outbound network access to generativelanguage.googleapis.com is allowed.''),
           [Call_pdfToWordPrompt uri, Call_pdfToWordPrompt15 uri])"
    by (simp only: f j)
  have p: "projl (fst (pdfToWordFlow env uri)) = ?msg"
    by (simp only: f fst_conv sum.sel)
  show "sublist (error_text e1) (projl (fst (pdfToWordFlow env uri)))"
    unfolding p by (rule sublist_appendI)
  have "sublist (error_text e2)
          ((js ''Gemini request failed: '' @ error_text e1 @ js ''. Fallback model also failed: '')
            @ error_text e2 @ (js ''. '' @ ?h))"
    by (rule sublist_appendI)
  then show "sublist (error_text e2) (projl (fst (pdfToWordFlow env uri)))"
    unfolding p by (simp only: append_assoc)
  have "sublist ?h
          ((js ''Gemini request failed: '' @ error_text e1 @ js ''. Fallback model also failed: ''
              @ error_text e2 @ js ''. '') @ ?h)"
    by (rule sublist_append_leftI)
  then show "sublist ?h (projl (fst (pdfToWordFlow env uri)))"
    unfolding p by (simp only: append_assoc)
qed

theorem flow_fallback_witness:
  "pdfToWordPrompt15 (ex_env (Inl (Error (js ''quota''))) (Inr (Some ex_result)) (Inl (NonError (js ''x''))))
      (js ''u'') = Inr (Some ex_result)
   \<and> pdfToWordFlow (ex_env (Inl (Error (js ''quota''))) (Inr (Some ex_result)) (Inl (NonError (js ''x''))))
      (js ''u'')
     = (Inr ex_result, [Call_pdfToWordPrompt (js ''u''), Call_pdfToWordPrompt15 (js ''u'')])
   \<and> attempt (pdfToWordPrompt (ex_env (Inl (NonError (js ''timeout''))) (Inr None) (Inl (NonError (js ''x''))))
        (js ''u'')) (js ''The AI failed to process the PDF content.'') = Inl (NonError (js ''timeout''))
   \<and> attempt (pdfToWordPrompt15 (ex_env (Inl (NonError (js ''timeout''))) (Inr None) (Inl (NonError (js ''x''))))
        (js ''u'')) (js ''The AI failed to process the PDF content (fallback).'')
       = Inl (Error (js ''The AI failed to process the PDF content (fallback).''))
   \<and> pdfToWordFlow (ex_env (Inl (NonError (js ''timeout''))) (Inr None) (Inl (NonError (js ''x''))))
      (js ''u'')
     = (Inl (js ''Gemini request failed: timeout. Fallback model also failed: The AI failed to process the PDF content (fallback).. Verify your API key is valid and enabled, and that outbound network access to generativelanguage.googleapis.com is allowed.''),
        [Call_pdfToWordPrompt (js ''u''), Call_pdfToWordPrompt15 (js ''u'')])
   \<and> pdfToWordFlow (ex_env (Inl (Error (js ''quota''))) (Inl (Error (js ''no model''))) (Inl (NonError (js ''x''))))
      (js ''u'')
     = (Inl (js ''Gemini request failed: quota. Fallback model also failed: no model. Verify your API key is valid and enabled, and that outbound network access to generativelanguage.googleapis.com is allowed.''),
        [Call_pdfToWordPrompt (js ''u''), Call_pdfToWordPrompt15 (js ''u'')])
   \<and> sublist (js ''quota'')
        (projl (fst (pdfToWordFlow
           (ex_env (Inl (Error (js ''quota''))) (Inl (Error (js ''no model''))) (Inl (NonError (js ''x''))))
           (js ''u''))))
   \<and> sublist (js ''no model'')
        (projl (fst (pdfToWordFlow
           (ex_env (Inl (Error (js ''quota''))) (Inl (Error (js ''no model''))) (Inl (NonError (js ''x''))))
           (js ''u''))))"
proof -
  let ?e1 = "ex_env (Inl (Error (js ''quota''))) (Inr (Some ex_result)) (Inl (NonError (js ''x'')))"
  let ?e2 = "ex_env (Inl (NonError (js ''timeout''))) (Inr None) (Inl (NonError (js ''x'')))"
  let ?e3 = "ex_env (Inl (Error (js ''quota''))) (Inl (Error (js ''no model''))) (Inl (NonError (js ''x'')))"
  have s: "(\<forall>r'. pdfToWordPrompt ?e1 (js ''u'') \<noteq> Inr (Some r'))
           \<and> pdfToWordPrompt15 ?e1 (js ''u'') = Inr (Some ex_result)"
    by (simp add: ex_env_sel)
  have f2: "attempt (pdfToWordPrompt ?e2 (js ''u'')) (js ''The AI failed to process the PDF content.'')
             = Inl (NonError (js ''timeout''))
       \<and> attempt (pdfToWordPrompt15 ?e2 (js ''u'')) (js ''The AI failed to process the PDF content (fallback).'')
             = Inl (Error (js ''The AI failed to process the PDF content (fallback).''))"
    by (simp add: ex_env_sel)
  have f3: "attempt (pdfToWordPrompt ?e3 (js ''u'')) (js ''The AI failed to process the PDF content.'')
             = Inl (Error (js ''quota''))
       \<and> attempt (pdfToWordPrompt15 ?e3 (js ''u'')) (js ''The AI failed to process the PDF content (fallback).'')
             = Inl (Error (js ''no model''))"
    by (simp add: ex_env_sel)
  note second = flow_fallback [of ?e1 "js ''u''" ex_result "Inr None" "[]" "Error []" "[]" "[]"
      "Error []" "Error []",
      THEN conjunct2, THEN conjunct1, rule_format, OF s]
  note both2 = flow_fallback [of ?e2 "js ''u''" ex_result "Inr None" "[]" "Error []" "[]" "[]"
      "NonError (js ''timeout'')"
      "Error (js ''The AI failed to process the PDF content (fallback).'')",
      THEN conjunct2, THEN conjunct2, THEN conjunct2, THEN conjunct2, THEN conjunct2,
      THEN conjunct2, THEN conjunct2, rule_format, OF f2]
  note both3 = flow_fallback [of ?e3 "js ''u''" ex_result "Inr None" "[]" "Error []" "[]" "[]"
      "Error (js ''quota'')" "Error (js ''no model'')",
      THEN conjunct2, THEN conjunct2, THEN conjunct2, THEN conjunct2, THEN conjunct2,
      THEN conjunct2, THEN conjunct2, rule_format, OF f3]
  have m2: "pdfToWordFlow ?e2 (js ''u'')
     = (Inl (js ''Gemini request failed: timeout. Fallback model also failed: The AI failed to process the PDF content (fallback).. Verify your API key is valid and enabled, and that outbound network access to generativelanguage.googleapis.com is allowed.''),
        [Call_pdfToWordPrompt (js ''u''), Call_pdfToWordPrompt15 (js ''u'')])"
    using both2 [THEN conjunct1] by (simp add: js_append [symmetric])
  have m3: "pdfToWordFlow ?e3 (js ''u'')
     = (Inl (js ''Gemini request failed: quota. Fallback model also failed: no model. Verify your API key is valid and enabled, and that outbound network access to generativelanguage.googleapis.com is allowed.''),
        [Call_pdfToWordPrompt (js ''u''), Call_pdfToWordPrompt15 (js ''u'')])"
    using both3 [THEN conjunct1] by (simp add: js_append [symmetric])
  have q: "sublist (js ''quota'') (projl (fst (pdfToWordFlow ?e3 (js ''u''))))"
    using both3 [THEN conjunct2, THEN conjunct1] by simp
  have n: "sublist (js ''no model'') (projl (fst (pdfToWordFlow ?e3 (js ''u''))))"
    using both3 [THEN conjunct2, THEN conjunct2, THEN conjunct1] by simp
  from s second f2 m2 m3 q n show ?thesis by blast
qed

text \<open>
  C4. Outside the \<open>no_ocr\<close> mode, when the flow fails the converter without AI is
  called next; its output is returned when it succeeds, and when it fails too the
  pipeline throws one error whose message is the message of the flow (which is never
  empty, so the default text is not used), whatever the converter threw.
\<close>

theorem pipeline_double_failure:
  "conversionMode input \<noteq> js ''no_ocr'' \<and> pdfToWordFlow env (pdfUri input) = (Inl m, calls) \<longrightarrow>
     snd (pdfToWord env input) = calls @ [Call_pdfToWordNoOcr input]
     \<and> (pdfToWordNoOcr env input = Inr fallback \<longrightarrow> fst (pdfToWord env input) = Inr fallback)
     \<and> (pdfToWordNoOcr env input = Inl e2 \<longrightarrow> fst (pdfToWord env input) = Inl (Thrown (Error m)))"
proof (intro impI)
  assume a: "conversionMode input \<noteq> js ''no_ocr'' \<and> pdfToWordFlow env (pdfUri input) = (Inl m, calls)"
  then have "fst (pdfToWordFlow env (pdfUri input)) = Inl m" by simp
  then have m: "m \<noteq> []" by (rule flow_error_nonempty)
  show "snd (pdfToWord env input) = calls @ [Call_pdfToWordNoOcr input]
     \<and> (pdfToWordNoOcr env input = Inr fallback \<longrightarrow> fst (pdfToWord env input) = Inr fallback)
     \<and> (pdfToWordNoOcr env input = Inl e2 \<longrightarrow> fst (pdfToWord env input) = Inl (Thrown (Error m)))"
    using a m by (simp add: pdfToWord_def or_string_def split: sum.splits)
qed

theorem pipeline_double_failure_witness:
  "conversionMode (ex_input ''ocr'') \<noteq> js ''no_ocr''
   \<and> pdfToWordFlow (ex_env (Inl (Error (js ''quota''))) (Inl (Error (js ''no model'')))
          (Inl (Error (js ''soffice not found''))))
        (pdfUri (ex_input ''ocr''))
       = (Inl (js ''Gemini request failed: quota. Fallback model also failed: no model. Verify your API key is valid and enabled, and that outbound network access to generativelanguage.googleapis.com is allowed.''),
          [Call_pdfToWordPrompt (pdfUri (ex_input ''ocr'')),
           Call_pdfToWordPrompt15 (pdfUri (ex_input ''ocr''))])
   \<and> pdfToWordNoOcr (ex_env (Inl (Error (js ''quota''))) (Inl (Error (js ''no model'')))
          (Inl (Error (js ''soffice not found''))))
        (ex_input ''ocr'') = Inl (Error (js ''soffice not found''))
   \<and> fst (pdfToWord (ex_env (Inl (Error (js ''quota''))) (Inl (Error (js ''no model'')))
          (Inl (Error (js ''soffice not found''))))
        (ex_input ''ocr''))
       = Inl (Thrown (Error (js ''Gemini request failed: quota. Fallback model also failed: no model. Verify your API key is valid and enabled, and that outbound network access to generativelanguage.googleapis.com is allowed.'')))
   \<and> snd (pdfToWord (ex_env (Inl (Error (js ''quota''))) (Inl (Error (js ''no model'')))
          (Inl (Error (js ''soffice not found''))))
        (ex_input ''ocr''))
       = [Call_pdfToWordPrompt (pdfUri (ex_input ''ocr'')),
          Call_pdfToWordPrompt15 (pdfUri (ex_input ''ocr'')),
          Call_pdfToWordNoOcr (ex_input ''ocr'')]"
proof -
  let ?env = "ex_env (Inl (Error (js ''quota''))) (Inl (Error (js ''no model'')))
                (Inl (Error (js ''soffice not found'')))"
  let ?calls = "[Call_pdfToWordPrompt (pdfUri (ex_input ''ocr'')),
                 Call_pdfToWordPrompt15 (pdfUri (ex_input ''ocr''))]"
  let ?m = "js ''Gemini request failed: quota. Fallback model also failed: no model. Verify your API key is valid and enabled, and that outbound network access to generativelanguage.googleapis.com is allowed.''"
  have fl: "pdfToWordFlow ?env u = (Inl ?m, [Call_pdfToWordPrompt u, Call_pdfToWordPrompt15 u])" for u
    by (simp add: pdfToWordFlow_def ex_env_sel hint_def js_append [symmetric])
  have a: "conversionMode (ex_input ''ocr'') \<noteq> js ''no_ocr''
           \<and> pdfToWordFlow ?env (pdfUri (ex_input ''ocr'')) = (Inl ?m, ?calls)"
    by (simp add: ex_input_sel js_inject fl)
  have n: "pdfToWordNoOcr ?env (ex_input ''ocr'') = Inl (Error (js ''soffice not found''))"
    by (simp add: ex_env_sel)
  note t = pipeline_double_failure [of "ex_input ''ocr''" ?env ?m ?calls
      "\<lparr>docxUri = []\<rparr>" "Error (js ''soffice not found'')", rule_format, OF a]
  have r: "fst (pdfToWord ?env (ex_input ''ocr'')) = Inl (Thrown (Error ?m))"
    using t [THEN conjunct2, THEN conjunct2, rule_format, OF n] .
  have c: "snd (pdfToWord ?env (ex_input ''ocr'')) = ?calls @ [Call_pdfToWordNoOcr (ex_input ''ocr'')]"
    using t [THEN conjunct1] .
  from a n r c show ?thesis by simp
qed

text \<open>
  C7. In the \<open>no_ocr\<close> mode the pipeline makes one call, to the converter without AI,
  and its outcome is the outcome of that call as it is: the value it returns, or the
  value it throws; neither prompt of the flow is called, and the outcome does not depend
  on what the prompts would do.
\<close>

theorem no_ocr_routes_to_fallback:
  "conversionMode input = js ''no_ocr'' \<longrightarrow>
     pdfToWord env input = (rethrow (pdfToWordNoOcr env input), [Call_pdfToWordNoOcr input])
     \<and> snd (pdfToWord env input) = [Call_pdfToWordNoOcr input]
     \<and> (pdfToWordNoOcr env input = Inr out \<longrightarrow> fst (pdfToWord env input) = Inr out)
     \<and> (pdfToWordNoOcr env input = Inl e \<longrightarrow> fst (pdfToWord env input) = Inl (Thrown e))
     \<and> Call_pdfToWordPrompt u \<notin> set (snd (pdfToWord env input))
     \<and> Call_pdfToWordPrompt15 u \<notin> set (snd (pdfToWord env input))
     \<and> pdfToWord (env\<lparr>pdfToWordPrompt := p, pdfToWordPrompt15 := q\<rparr>) input = pdfToWord env input"
  by (simp add: pdfToWord_def)

theorem no_ocr_routes_to_fallback_witness:
  "conversionMode (ex_input ''no_ocr'') = js ''no_ocr''
   \<and> pdfToWordNoOcr (ex_env (Inr (Some ex_result)) (Inr None) (Inr \<lparr>docxUri = js ''data:x''\<rparr>))
        (ex_input ''no_ocr'') = Inr \<lparr>docxUri = js ''data:x''\<rparr>
   \<and> pdfToWord (ex_env (Inr (Some ex_result)) (Inr None) (Inr \<lparr>docxUri = js ''data:x''\<rparr>))
        (ex_input ''no_ocr'')
       = (Inr \<lparr>docxUri = js ''data:x''\<rparr>, [Call_pdfToWordNoOcr (ex_input ''no_ocr'')])
   \<and> pdfToWordNoOcr (ex_env (Inr (Some ex_result)) (Inr None) (Inl (Error (js ''soffice not found''))))
        (ex_input ''no_ocr'') = Inl (Error (js ''soffice not found''))
   \<and> pdfToWord (ex_env (Inr (Some ex_result)) (Inr None) (Inl (Error (js ''soffice not found''))))
        (ex_input ''no_ocr'')
       = (Inl (Thrown (Error (js ''soffice not found''))), [Call_pdfToWordNoOcr (ex_input ''no_ocr'')])"
proof -
  let ?ok = "ex_env (Inr (Some ex_result)) (Inr None) (Inr \<lparr>docxUri = js ''data:x''\<rparr>)"
  let ?ko = "ex_env (Inr (Some ex_result)) (Inr None) (Inl (Error (js ''soffice not found'')))"
  have a: "conversionMode (ex_input ''no_ocr'') = js ''no_ocr''"
    by (simp add: ex_input_sel)
  have n1: "pdfToWordNoOcr ?ok (ex_input ''no_ocr'') = Inr \<lparr>docxUri = js ''data:x''\<rparr>"
    and n2: "pdfToWordNoOcr ?ko (ex_input ''no_ocr'') = Inl (Error (js ''soffice not found''))"
    by (simp_all add: ex_env_sel)
  note t1 = no_ocr_routes_to_fallback [of "ex_input ''no_ocr''" ?ok "\<lparr>docxUri = js ''data:x''\<rparr>"
      "Error []" "[]" "\<lambda>_. Inr None" "\<lambda>_. Inr None", rule_format, OF a]
  note t2 = no_ocr_routes_to_fallback [of "ex_input ''no_ocr''" ?ko "\<lparr>docxUri = []\<rparr>"
      "Error (js ''soffice not found'')" "[]" "\<lambda>_. Inr None" "\<lambda>_. Inr None", rule_format, OF a]
  have r1: "pdfToWord ?ok (ex_input ''no_ocr'')
       = (Inr \<lparr>docxUri = js ''data:x''\<rparr>, [Call_pdfToWordNoOcr (ex_input ''no_ocr'')])"
    using t1 [THEN conjunct2, THEN conjunct1]
      t1 [THEN conjunct2, THEN conjunct2, THEN conjunct1, rule_format, OF n1]
    by (simp add: prod_eq_iff)
  have r2: "pdfToWord ?ko (ex_input ''no_ocr'')
       = (Inl (Thrown (Error (js ''soffice not found''))), [Call_pdfToWordNoOcr (ex_input ''no_ocr'')])"
    using t2 [THEN conjunct2, THEN conjunct1]
      t2 [THEN conjunct2, THEN conjunct2, THEN conjunct2, THEN conjunct1, rule_format, OF n2]
    by (simp add: prod_eq_iff)
  from a n1 n2 r1 r2 show ?thesis by simp
qed

section \<open>Key rotation\<close>

text \<open>
  C8. Selection is a function of the store and the date. With no eligible (enabled and
  not flagged) key it returns null. With rotation enabled and a wall-clock time, that is
  a date at or after the epoch, it returns the key at index
  \<open>floor(time / interval) mod N\<close> of the eligible keys, where N is their number and the
  interval is one minute or one hour by the strategy. Two dates in the same bucket of
  the strategy (the same clock hour, under the hourly strategy) give the same outcome.
\<close>

theorem rotating_key_bucket:
  "(filter eligible (providers store gemini) = [] \<longrightarrow> getRotatingGeminiKey store d = Inr None)
   \<and> (enabled (rotation store gemini) \<and> 0 \<le> t \<and> filter eligible (providers store gemini) \<noteq> [] \<longrightarrow>
        getRotatingGeminiKey store (Date t) =
          Inr (Some (key (filter eligible (providers store gemini) !
                 nat ((t div interval (strategy (rotation store gemini)))
                        mod int (length (filter eligible (providers store gemini))))))))
   \<and> (t div interval (strategy (rotation store gemini)) = t' div interval (strategy (rotation store gemini)) \<longrightarrow>
        getRotatingGeminiKey store (Date t) = getRotatingGeminiKey store (Date t'))
   \<and> interval hourly = 3600000 \<and> interval minute = 60000"
proof (intro conjI impI)
  assume "filter eligible (providers store gemini) = []"
  then show "getRotatingGeminiKey store d = Inr None"
    by (simp add: getRotatingGeminiKey_def)
next
  let ?keys = "filter eligible (providers store gemini)"
  let ?b = "t div interval (strategy (rotation store gemini))"
  assume a: "enabled (rotation store gemini) \<and> 0 \<le> t \<and> ?keys \<noteq> []"
  then have b0: "0 \<le> ?b" by (simp add: interval_def pos_imp_zdiv_nonneg_iff)
  have n0: "0 < int (length ?keys)" using a by simp
  have r: "js_rem ?b (int (length ?keys)) = ?b mod int (length ?keys)"
    using js_rem_nonneg [OF b0 n0] .
  have i: "js_index ?keys (?b mod int (length ?keys)) = Some (?keys ! nat (?b mod int (length ?keys)))"
    using a js_index_mod by blast
  show "getRotatingGeminiKey store (Date t) = Inr (Some (key (?keys ! nat (?b mod int (length ?keys)))))"
    using a r i by (simp add: getRotatingGeminiKey_def interval_def Let_def split: if_splits)
next
  assume "t div interval (strategy (rotation store gemini)) = t' div interval (strategy (rotation store gemini))"
  then show "getRotatingGeminiKey store (Date t) = getRotatingGeminiKey store (Date t')"
    by (simp add: getRotatingGeminiKey_def interval_def Let_def split: if_splits)
next
  show "interval hourly = 3600000" by (simp add: interval_def)
  show "interval minute = 60000" by (simp add: interval_def)
qed

theorem rotating_key_bucket_witness:
  "enabled (rotation (ex_store True hourly) gemini)
   \<and> filter eligible (providers (ex_store True hourly) gemini)
       = [ex_key ''AAA'' True None, ex_key ''DDD'' True (Some False)]
   \<and> getRotatingGeminiKey (ex_store True hourly) (Date 3600000) = Inr (Some (js ''DDD''))
   \<and> getRotatingGeminiKey (ex_store True hourly) (Date 7199999) = Inr (Some (js ''DDD''))
   \<and> getRotatingGeminiKey (ex_store True hourly) (Date 7200000) = Inr (Some (js ''AAA''))
   \<and> getRotatingGeminiKey (ex_store True hourly) (Date 1762128000000) = Inr (Some (js ''AAA''))
   \<and> getRotatingGeminiKey (ex_store True minute) (Date 60000) = Inr (Some (js ''DDD''))
   \<and> filter eligible (providers ((ex_store True hourly)\<lparr>providers := (\<lambda>_. [ex_key ''BBB'' True (Some True)])\<rparr>) gemini) = []
   \<and> getRotatingGeminiKey ((ex_store True hourly)\<lparr>providers := (\<lambda>_. [ex_key ''BBB'' True (Some True)])\<rparr>)
        (Date 3600000) = Inr None"
proof -
  let ?keys = "[ex_key ''AAA'' True None, ex_key ''DDD'' True (Some False)]"
  let ?none = "(ex_store True hourly)\<lparr>providers := (\<lambda>_. [ex_key ''BBB'' True (Some True)])\<rparr>"
  have k: "filter eligible (providers (ex_store True s) gemini) = ?keys" for s
    by (simp add: ex_store_sel ex_key_sel)
  have en: "enabled (rotation (ex_store True s) gemini)" for s
    by (simp add: ex_store_sel)
  have pre: "enabled (rotation (ex_store True s) gemini) \<and> 0 \<le> t
             \<and> filter eligible (providers (ex_store True s) gemini) \<noteq> []" if "0 \<le> t" for s and t :: int
    using that by (simp add: k en)
  have e: "filter eligible (providers ?none gemini) = []"
    by (simp add: ex_key_sel)
  have a: "getRotatingGeminiKey (ex_store True hourly) (Date 3600000) = Inr (Some (js ''DDD''))"
    using rotating_key_bucket [of "ex_store True hourly" Invalid_Date 3600000 3600000,
        THEN conjunct2, THEN conjunct1, rule_format, OF pre]
    by (simp add: k ex_store_sel interval_def ex_key_sel)
  have b: "getRotatingGeminiKey (ex_store True hourly) (Date 3600000)
           = getRotatingGeminiKey (ex_store True hourly) (Date 7199999)"
    using rotating_key_bucket [of "ex_store True hourly" Invalid_Date 3600000 7199999,
        THEN conjunct2, THEN conjunct2, THEN conjunct1]
    by (simp add: ex_store_sel interval_def)
  have c: "getRotatingGeminiKey (ex_store True hourly) (Date 7200000) = Inr (Some (js ''AAA''))"
    using rotating_key_bucket [of "ex_store True hourly" Invalid_Date 7200000 7200000,
        THEN conjunct2, THEN conjunct1, rule_format, OF pre]
    by (simp add: k ex_store_sel interval_def ex_key_sel)
  have c': "getRotatingGeminiKey (ex_store True hourly) (Date 1762128000000) = Inr (Some (js ''AAA''))"
    using rotating_key_bucket [of "ex_store True hourly" Invalid_Date 1762128000000 1762128000000,
        THEN conjunct2, THEN conjunct1, rule_format, OF pre]
    by (simp add: k ex_store_sel interval_def ex_key_sel)
  have d: "getRotatingGeminiKey (ex_store True minute) (Date 60000) = Inr (Some (js ''DDD''))"
    using rotating_key_bucket [of "ex_store True minute" Invalid_Date 60000 60000,
        THEN conjunct2, THEN conjunct1, rule_format, OF pre]
    by (simp add: k ex_store_sel interval_def ex_key_sel)
  have f: "getRotatingGeminiKey ?none (Date 3600000) = Inr None"
    using rotating_key_bucket [of ?none "Date 3600000" 0 0, THEN conjunct1, rule_format, OF e] .
  from en k a b c c' d e f show ?thesis by simp
qed

text \<open>
  C10. With rotation disabled, selection returns the key of the first eligible (enabled
  and not flagged) record in stored order, or null when there is none, and the outcome
  is the same for every date, a valid one or not.
\<close>

theorem rotation_disabled_first_eligible:
  "\<not> enabled (rotation store gemini) \<longrightarrow>
     getRotatingGeminiKey store d = Inr (map_option key (find eligible (providers store gemini)))
     \<and> getRotatingGeminiKey store d = getRotatingGeminiKey store d'"
proof
  assume a: "\<not> enabled (rotation store gemini)"
  have "getRotatingGeminiKey store x = Inr (map_option key (find eligible (providers store gemini)))" for x
  proof (cases "filter eligible (providers store gemini)")
    case Nil
    then show ?thesis by (simp add: getRotatingGeminiKey_def find_filter_case)
  next
    case (Cons k ks)
    then show ?thesis using a by (simp add: getRotatingGeminiKey_def find_filter_case)
  qed
  then show "getRotatingGeminiKey store d = Inr (map_option key (find eligible (providers store gemini)))
     \<and> getRotatingGeminiKey store d = getRotatingGeminiKey store d'"
    by simp
qed

theorem rotation_disabled_first_eligible_witness:
  "\<not> enabled (rotation (ex_store False hourly) gemini)
   \<and> find eligible (providers (ex_store False hourly) gemini) = Some (ex_key ''AAA'' True None)
   \<and> getRotatingGeminiKey (ex_store False hourly) (Date 3600000) = Inr (Some (js ''AAA''))
   \<and> getRotatingGeminiKey (ex_store False hourly) (Date (- 1)) = Inr (Some (js ''AAA''))
   \<and> getRotatingGeminiKey (ex_store False hourly) Invalid_Date = Inr (Some (js ''AAA''))"
proof -
  have a: "\<not> enabled (rotation (ex_store False hourly) gemini)"
    by (simp add: ex_store_sel)
  have f: "find eligible (providers (ex_store False hourly) gemini) = Some (ex_key ''AAA'' True None)"
    by (simp add: ex_store_sel ex_key_sel)
  have r: "getRotatingGeminiKey (ex_store False hourly) x = Inr (Some (js ''AAA''))" for x
    using rotation_disabled_first_eligible [of "ex_store False hourly" x x, rule_format, OF a,
        THEN conjunct1]
    by (simp add: f ex_key_sel)
  from a f r show ?thesis by simp
qed

end
